theory Spec2Isabelle
  imports Main
begin

section \<open>Python values, exceptions and containers\<close>

text \<open>
  The values an item stores: \<open>None\<close>, strings and lists (the only distinction
  \<open>Item.__setitem__\<close> makes is \<open>isinstance(value, list)\<close>).
\<close>

datatype pyval = PyNone | PyStr string | PyList "pyval list"

text \<open>
  The exceptions that can leave the code of \<open>kalamar/item.py\<close>. \<open>OtherError\<close> stands for
  whatever a caller-supplied opener or parser hook raises.
\<close>

datatype error =
    KeyError
  | IndexError
  | AttributeError
  | ParserNotAvailable string
  | OtherError string

fun isinstance_list :: "pyval \<Rightarrow> bool" where
  "isinstance_list (PyList vs) = True"
| "isinstance_list v = False"

subsection \<open>MultiDict\<close>

text \<open>
  Modelled from the spec: \<open>MultiDict\<close> is imported from werkzeug and is not part of the
  source tree. It is the spec's PropertyMap, "a multi-valued key/value container (a key may
  hold one or many values; enumeration order of keys is not semantically meaningful)":
  a dictionary from keys to lists of values. Built from a plain dictionary, a list value
  becomes the value list and any other value a one-element list; item access returns the
  first value of the key, item assignment replaces the list by a one-element list. The
  order of the association list stands for the dictionary's iteration order, which no
  theorem below depends on. Reading the first value of a key whose list is empty is
  modelled as the \<open>IndexError\<close> of \<open>lst[0]\<close>; an empty list can only come from the
  storage properties given at construction, and the theorems below either do not meet that
  case or exclude it by a hypothesis.
\<close>

type_synonym multidict = "(string \<times> pyval list) list"

definition MultiDict :: "(string \<times> pyval) list \<Rightarrow> multidict" where
  "MultiDict mapping =
     map (\<lambda>(key, v). (key, case v of PyList vs \<Rightarrow> vs | _ \<Rightarrow> [v])) mapping"

definition md_keys :: "multidict \<Rightarrow> string list" where
  "md_keys d = map fst d"

definition md_getitem :: "multidict \<Rightarrow> string \<Rightarrow> error + pyval" where
  "md_getitem d key =
     (case map_of d key of
        None \<Rightarrow> Inl KeyError
      | Some [] \<Rightarrow> Inl IndexError
      | Some (v # vs) \<Rightarrow> Inr v)"

fun md_update :: "string \<Rightarrow> pyval list \<Rightarrow> multidict \<Rightarrow> multidict" where
  "md_update key vs [] = [(key, vs)]"
| "md_update key vs ((k, ws) # d) =
     (if k = key then (key, vs) # d else (k, ws) # md_update key vs d)"

definition md_setitem :: "multidict \<Rightarrow> string \<Rightarrow> pyval \<Rightarrow> multidict" where
  "md_setitem d key v = md_update key [v] d"

definition md_getlist :: "multidict \<Rightarrow> string \<Rightarrow> pyval list" where
  "md_getlist d key = (case map_of d key of None \<Rightarrow> [] | Some vs \<Rightarrow> vs)"

subsection \<open>AliasedMultiDict\<close>

text \<open>
  \<open>AliasedMultiDict\<close> wraps a MultiDict and an alias dictionary. It defines
  \<open>__contains__\<close>, \<open>__getitem__\<close>, \<open>__setitem__\<close>, \<open>keys\<close> and \<open>getlist\<close>, and nothing
  else: in particular it has no \<open>setlist\<close>.
\<close>

record AliasedMultiDict =
  data :: multidict
  aliases :: "(string \<times> string) list"

definition aliases_get :: "(string \<times> string) list \<Rightarrow> string \<Rightarrow> string" where
  \<comment> \<open>\<open>aliases.get(key, key)\<close>\<close>
  "aliases_get al key = (case map_of al key of None \<Rightarrow> key | Some c \<Rightarrow> c)"

definition aliased_keys :: "AliasedMultiDict \<Rightarrow> string list" where
  "aliased_keys d = map fst (aliases d) @ md_keys (data d)"

definition aliased_contains :: "AliasedMultiDict \<Rightarrow> string \<Rightarrow> bool" where
  "aliased_contains d key = (key \<in> set (aliased_keys d))"

definition aliased_getitem :: "AliasedMultiDict \<Rightarrow> string \<Rightarrow> error + pyval" where
  "aliased_getitem d key = md_getitem (data d) (aliases_get (aliases d) key)"

definition aliased_setitem :: "AliasedMultiDict \<Rightarrow> string \<Rightarrow> pyval \<Rightarrow> AliasedMultiDict" where
  "aliased_setitem d key v = d\<lparr>data := md_setitem (data d) (aliases_get (aliases d) key) v\<rparr>"

definition aliased_getlist :: "AliasedMultiDict \<Rightarrow> string \<Rightarrow> pyval list" where
  "aliased_getlist d key = md_getlist (data d) (aliases_get (aliases d) key)"

subsection \<open>CombinedMultiDict\<close>

text \<open>
  Modelled from the spec: \<open>CombinedMultiDict\<close> is imported from werkzeug and is not part
  of the source tree. It is the spec's CombinedPropertyView: lookups "delegate to whichever
  of its two views reports contains(key)==true", trying the wrapped dictionaries in the
  order given, and fail with \<open>KeyError\<close> when none contains the key; "keys() is the union
  of both views' keys()". The wrapped objects are duck-typed, so their \<open>__contains__\<close> and
  \<open>__getitem__\<close> are passed in.
\<close>

fun combined_getitem ::
  "('d \<Rightarrow> string \<Rightarrow> bool) \<Rightarrow> ('d \<Rightarrow> string \<Rightarrow> error + pyval) \<Rightarrow> 'd list \<Rightarrow> string
     \<Rightarrow> error + pyval" where
  "combined_getitem has get [] key = Inl KeyError"
| "combined_getitem has get (d # ds) key =
     (if has d key then get d key else combined_getitem has get ds key)"

definition combined_keys :: "string list list \<Rightarrow> string list" where
  "combined_keys kss = remdups (concat kss)"

section \<open>Access points, item classes and items\<close>

text \<open>
  The access point is an external collaborator; these are the attributes the item reads.
\<close>

record access_point =
  parser_name :: "string option"
  ap_storage_aliases :: "(string \<times> string) list"
  ap_parser_aliases :: "(string \<times> string) list"
  default_encoding :: string
  get_storage_properties :: "string list"

text \<open>
  An item class is its static \<open>format\<close> attribute and its two hooks. The stream is the text
  still to be read from it (\<open>None\<close> when \<open>_stream\<close> is \<open>None\<close>);
  \<open>_custom_parse_data\<close> returns the items of the dictionary it built, or raises, together
  with the stream as it leaves it. Per their docstrings the hooks do not touch the item's
  properties.
\<close>

record item_class =
  format :: "string option"
  custom_parse_data :: "string option \<Rightarrow> (error + (string \<times> pyval) list) \<times> string option"
  custom_serialize :: "(string \<times> pyval) list \<Rightarrow> error + pyval"

definition Item :: item_class where
  \<comment> \<open>the base class: \<open>format = None\<close>, parses to an empty MultiDict, serializes to \<open>''\<close>\<close>
  "Item = \<lparr>format = None,
            custom_parse_data = (\<lambda>st. (Inr [], st)),
            custom_serialize = (\<lambda>properties. Inr (PyStr []))\<rparr>"

definition AtomItem :: item_class where
  \<comment> \<open>\<open>properties['_content'] = self._stream.read()\<close>; \<open>return properties['_content']\<close>\<close>
  "AtomItem = \<lparr>format = Some ''binary'',
                custom_parse_data = (\<lambda>st. case st of
                     None \<Rightarrow> (Inl AttributeError, None)
                   | Some text \<Rightarrow> (Inr [(''_content'', PyStr text)], Some [])),
                custom_serialize = (\<lambda>properties. case map_of properties ''_content'' of
                     None \<Rightarrow> Inl KeyError
                   | Some v \<Rightarrow> Inr v)\<rparr>"

definition CapsuleItem :: item_class where
  \<comment> \<open>inherits \<open>format\<close> and both hooks from the base class\<close>
  "CapsuleItem = Item"

text \<open>
  The instance state. The two views \<open>storage_properties\<close> and \<open>parser_properties\<close> share
  their MultiDict with \<open>raw_properties\<close>, so the state keeps each MultiDict once and the
  views are built over it. The opener is \<open>None\<close>, or what calling it does: raise, or return
  a stream holding a text. \<open>parse_calls\<close> and \<open>opener_calls\<close> instrument the model: they
  count the executions of \<open>_custom_parse_data\<close> and of the opener.
\<close>

record item =
  cls :: item_class
  opener :: "(error + string) option"
  stream :: "string option"
  item_access_point :: access_point
  loaded :: bool
  content_modified :: bool
  parser_modified :: bool
  storage_aliases :: "(string \<times> string) list"
  parser_aliases :: "(string \<times> string) list"
  raw_storage_properties :: multidict
  raw_parser_properties :: multidict
  old_storage_properties :: "(string \<times> pyval) list"
  parse_calls :: nat
  opener_calls :: nat

definition storage_properties :: "item \<Rightarrow> AliasedMultiDict" where
  "storage_properties self =
     \<lparr>data = raw_storage_properties self, aliases = storage_aliases self\<rparr>"

definition parser_properties :: "item \<Rightarrow> AliasedMultiDict" where
  "parser_properties self =
     \<lparr>data = raw_parser_properties self, aliases = parser_aliases self\<rparr>"

definition properties_getitem :: "item \<Rightarrow> string \<Rightarrow> error + pyval" where
  \<comment> \<open>\<open>self.properties[key]\<close>\<close>
  "properties_getitem self key =
     combined_getitem aliased_contains aliased_getitem
       [storage_properties self, parser_properties self] key"

definition raw_properties_keys :: "item \<Rightarrow> string list" where
  \<comment> \<open>\<open>self.raw_properties.keys()\<close>\<close>
  "raw_properties_keys self =
     combined_keys [md_keys (raw_storage_properties self), md_keys (raw_parser_properties self)]"

subsection \<open>\<open>Item.__setitem__\<close>\<close>

definition is_storage :: "item \<Rightarrow> string \<Rightarrow> bool" where
  "is_storage self key =
     (if key \<in> set (map fst (storage_aliases self)) then True
      else if key \<in> set (map fst (parser_aliases self)) then False
      else aliased_contains (storage_properties self) key)"

text \<open>
  A list value goes to \<open>setlist\<close> of the view, which \<open>AliasedMultiDict\<close> does not have: the
  attribute lookup raises before anything is stored or flagged.
\<close>

definition setitem :: "item \<Rightarrow> string \<Rightarrow> pyval \<Rightarrow> error + item" where
  "setitem self key v =
     (if is_storage self key then
        (if isinstance_list v then Inl AttributeError
         else Inr (self\<lparr>raw_storage_properties :=
                            data (aliased_setitem (storage_properties self) key v),
                         content_modified := True\<rparr>))
      else
        (if isinstance_list v then Inl AttributeError
         else Inr (self\<lparr>raw_parser_properties :=
                            data (aliased_setitem (parser_properties self) key v),
                         parser_modified := True\<rparr>)))"

text \<open>
  \<open>for key, value in d.items(): self[key] = value\<close>: the loop stops at the first
  assignment that raises; the assignments before it stay.
\<close>

fun setitems :: "item \<Rightarrow> (string \<times> pyval) list \<Rightarrow> (error + unit) \<times> item" where
  "setitems self [] = (Inr (), self)"
| "setitems self ((key, v) # kvs) =
     (case setitem self key v of
        Inl e \<Rightarrow> (Inl e, self)
      | Inr self' \<Rightarrow> setitems self' kvs)"

subsection \<open>Lazy loading: \<open>_open\<close>, \<open>_parse_data\<close>, \<open>__getitem__\<close>\<close>

definition open_stream :: "item \<Rightarrow> (error + unit) \<times> item" where
  \<comment> \<open>\<open>_open\<close>\<close>
  "open_stream self =
     (case (stream self, opener self) of
        (None, Some r) \<Rightarrow>
          (let self' = self\<lparr>opener_calls := Suc (opener_calls self)\<rparr> in
           case r of
             Inl e \<Rightarrow> (Inl e, self')
           | Inr text \<Rightarrow> (Inr (), self'\<lparr>stream := Some text\<rparr>))
      | _ \<Rightarrow> (Inr (), self))"

definition parse_data :: "item \<Rightarrow> (error + unit) \<times> item" where
  \<comment> \<open>\<open>_parse_data\<close>\<close>
  "parse_data self =
     (case open_stream self of
        (Inl e, self1) \<Rightarrow> (Inl e, self1)
      | (Inr u, self1) \<Rightarrow>
          (case custom_parse_data (cls self1) (stream self1) of (r, st) \<Rightarrow>
             (let self2 = self1\<lparr>stream := st, parse_calls := Suc (parse_calls self1)\<rparr> in
              case r of
                Inl e \<Rightarrow> (Inl e, self2)
              | Inr parsed \<Rightarrow> setitems self2 parsed)))"

definition load :: "item \<Rightarrow> (error + unit) \<times> item" where
  \<comment> \<open>\<open>if not self._loaded: self._parse_data(); self._loaded = True\<close>\<close>
  "load self =
     (if \<not> loaded self then
        (case parse_data self of
           (Inl e, self') \<Rightarrow> (Inl e, self')
         | (Inr u, self') \<Rightarrow> (Inr (), self'\<lparr>loaded := True\<rparr>))
      else (Inr (), self))"

definition getitem :: "item \<Rightarrow> string \<Rightarrow> (error + pyval) \<times> item" where
  "getitem self key =
     (case load self of
        (Inl e, self') \<Rightarrow> (Inl e, self')
      | (Inr u, self') \<Rightarrow>
          (case properties_getitem self' key of
             Inl KeyError \<Rightarrow> (Inr PyNone, self')
           | Inl e \<Rightarrow> (Inl e, self')
           | Inr v \<Rightarrow> (Inr v, self')))"

subsection \<open>\<open>keys\<close>, \<open>serialize\<close> and the properties\<close>

definition keys :: "item \<Rightarrow> string list" where
  "keys self =
     combined_keys [aliased_keys (storage_properties self), aliased_keys (parser_properties self)]"

text \<open>
  \<open>dict((name, self[name]) for name in names)\<close>: each \<open>self[name]\<close> is a read, so the first
  one loads the item.
\<close>

fun getitems :: "item \<Rightarrow> string list \<Rightarrow> (error + (string \<times> pyval) list) \<times> item" where
  "getitems self [] = (Inr [], self)"
| "getitems self (name # names) =
     (case getitem self name of
        (Inl e, self') \<Rightarrow> (Inl e, self')
      | (Inr v, self') \<Rightarrow>
          (case getitems self' names of
             (Inl e, self'') \<Rightarrow> (Inl e, self'')
           | (Inr kvs, self'') \<Rightarrow> (Inr ((name, v) # kvs), self'')))"

definition serialize :: "item \<Rightarrow> (error + pyval) \<times> item" where
  "serialize self =
     (case getitems self (raw_properties_keys self) of
        (Inl e, self') \<Rightarrow> (Inl e, self')
      | (Inr properties, self') \<Rightarrow> (custom_serialize (cls self') properties, self'))"

definition encoding :: "item \<Rightarrow> string" where
  "encoding self = default_encoding (item_access_point self)"

subsection \<open>Construction: \<open>__init__\<close>, \<open>get_item_parser\<close>, \<open>create_item\<close>\<close>

definition Item_init ::
  "item_class \<Rightarrow> access_point \<Rightarrow> (error + string) option \<Rightarrow> (string \<times> pyval) list
     \<Rightarrow> error + item" where
  "Item_init c ap opn storage_props =
     (case setitem
        \<lparr>cls = c, opener = opn, stream = None, item_access_point = ap,
         loaded = False, content_modified = False, parser_modified = False,
         storage_aliases = ap_storage_aliases ap, parser_aliases = ap_parser_aliases ap,
         raw_storage_properties = MultiDict storage_props, raw_parser_properties = [],
         old_storage_properties = [], parse_calls = 0, opener_calls = 0\<rparr>
        ''_content'' (PyStr []) of
        Inl e \<Rightarrow> Inl e
      | Inr self \<Rightarrow> Inr (self\<lparr>old_storage_properties := storage_props\<rparr>))"

text \<open>
  \<open>utils.recursive_subclasses(Item)\<close> and \<open>parser.load()\<close> are not in the source tree: the
  classes they yield are the parameter \<open>subclasses\<close>. \<open>StringIO\<close>, the default opener,
  returns an empty stream. In \<open>create_item\<close> the \<open>properties\<close> dictionary is the list of
  its items in iteration order, and a key added to it comes last (one of the orders a
  dictionary may iterate in; lemma \<open>create_item_two_entries\<close> covers the other).
\<close>

definition StringIO :: "(error + string) option" where
  "StringIO = Some (Inr [])"

definition get_item_parser ::
  "item_class list \<Rightarrow> access_point \<Rightarrow> (error + string) option \<Rightarrow> (string \<times> pyval) list
     \<Rightarrow> error + item" where
  "get_item_parser subclasses ap opn storage_props =
     (case parser_name ap of
        None \<Rightarrow> Item_init Item ap None storage_props
      | Some name \<Rightarrow>
          (case find (\<lambda>subclass. format subclass = Some name) subclasses of
             Some subclass \<Rightarrow> Item_init subclass ap opn storage_props
           | None \<Rightarrow> Inl (ParserNotAvailable (''Unknown parser: '' @ name))))"

definition create_item ::
  "item_class list \<Rightarrow> access_point \<Rightarrow> (string \<times> pyval) list \<Rightarrow> error + item" where
  "create_item subclasses ap properties =
     (case get_item_parser subclasses ap StringIO
             (map (\<lambda>name. (name, PyNone)) (remdups (get_storage_properties ap))) of
        Inl e \<Rightarrow> Inl e
      | Inr self \<Rightarrow>
          (case setitems (self\<lparr>old_storage_properties := [], loaded := True\<rparr>)
                  (if ''_content'' \<in> set (map fst properties) then properties
                   else properties @ [(''_content'', PyStr [])]) of
             (Inl e, self') \<Rightarrow> Inl e
           | (Inr u, self') \<Rightarrow> Inr self'))"

subsection \<open>\<open>AtomItem.read\<close> and \<open>AtomItem.write\<close>\<close>

definition AtomItem_read :: "item \<Rightarrow> (error + pyval) \<times> item" where
  "AtomItem_read self = getitem self ''_content''"

definition AtomItem_write :: "item \<Rightarrow> pyval \<Rightarrow> error + item" where
  "AtomItem_write self v = setitem self ''_content'' v"

section \<open>Sequences of calls on one item\<close>

text \<open>
  \<open>reads\<close> issues one \<open>__getitem__\<close> after the other on the same item, whether or not a
  call raised (the caller may catch the exception and go on); it returns the item as the
  calls leave it.
\<close>

fun reads :: "item \<Rightarrow> string list \<Rightarrow> item" where
  "reads self [] = self"
| "reads self (key # ks) = reads (snd (getitem self key)) ks"

text \<open>Calls that are not reads: \<open>self[key] = value\<close> and \<open>self.keys()\<close>.\<close>

datatype item_op = Write string pyval | Keys

fun apply_ops :: "item \<Rightarrow> item_op list \<Rightarrow> item" where
  "apply_ops self [] = self"
| "apply_ops self (Write key v # ops) =
     (case setitem self key v of
        Inl e \<Rightarrow> apply_ops self ops
      | Inr self' \<Rightarrow> apply_ops self' ops)"
| "apply_ops self (Keys # ops) = (case keys self of ks \<Rightarrow> apply_ops self ops)"

section \<open>Example access points and items\<close>

text \<open>
  The access point and item of the doctests: parser \<open>binary\<close>, no aliases, an opener over
  some text, storage properties \<open>{'artist': 'muse'}\<close>.
\<close>

definition cork_access_point :: access_point where
  "cork_access_point =
     \<lparr>parser_name = Some ''binary'', ap_storage_aliases = [], ap_parser_aliases = [],
      default_encoding = ''utf-8'', get_storage_properties = [''artist'']\<rparr>"

definition cork_opener :: "(error + string) option" where
  "cork_opener = Some (Inr ''toto'')"

definition cork_item :: item where
  "cork_item =
     projr (Item_init AtomItem cork_access_point cork_opener [(''artist'', PyStr ''muse'')])"

text \<open>The same class built with no opener, as \<open>get_item_parser\<close> builds the bare item.\<close>

definition unopened_item :: item where
  "unopened_item = projr (Item_init AtomItem cork_access_point None [])"

text \<open>
  An access point whose parser alias \<open>name\<close> stands for \<open>title\<close>, and an item of it that
  holds \<open>title\<close> in both namespaces: from the storage at construction, and in the parser
  namespace after a write to the alias.
\<close>

definition alias_access_point :: access_point where
  "alias_access_point =
     \<lparr>parser_name = None, ap_storage_aliases = [], ap_parser_aliases = [(''name'', ''title'')],
      default_encoding = ''utf-8'', get_storage_properties = [''title'']\<rparr>"

definition both_item :: item where
  "both_item =
     projr (setitem
       (snd (getitem (projr (Item_init Item alias_access_point None
                               [(''title'', PyStr ''stored'')])) ''title''))
       ''name'' (PyStr ''parsed''))"

text \<open>An item made by \<open>create_item\<close> for the doctests' access point.\<close>

definition fresh_item :: item where
  "fresh_item = projr (create_item [AtomItem] cork_access_point [(''title'', PyStr ''x'')])"

text \<open>The doctest's access point with \<open>parser_name = 'I do not exist'\<close>.\<close>

definition missing_access_point :: access_point where
  "missing_access_point = cork_access_point\<lparr>parser_name := Some ''I do not exist''\<rparr>"

text \<open>A view that declares the alias \<open>x\<close> for \<open>y\<close> over an empty MultiDict.\<close>

definition declared_only :: AliasedMultiDict where
  "declared_only = \<lparr>data = [], aliases = [(''x'', ''y'')]\<rparr>"

section \<open>Properties of the containers\<close>

lemmas eval_defs =
  Item_init_def Item_def AtomItem_def CapsuleItem_def StringIO_def
  setitem_def is_storage_def MultiDict_def storage_properties_def parser_properties_def
  properties_getitem_def raw_properties_keys_def combined_keys_def
  aliased_contains_def aliased_keys_def aliased_getitem_def aliased_setitem_def
  md_keys_def md_getitem_def md_setitem_def aliases_get_def
  getitem_def load_def parse_data_def open_stream_def keys_def serialize_def
  get_item_parser_def create_item_def AtomItem_read_def AtomItem_write_def

lemmas ex_defs =
  cork_access_point_def cork_opener_def cork_item_def unopened_item_def
  alias_access_point_def both_item_def fresh_item_def missing_access_point_def
  declared_only_def

lemma md_keys_MultiDict: "md_keys (MultiDict m) = map fst m"
  by (induction m) (auto simp: md_keys_def MultiDict_def)

lemma md_keys_update_list:
  "md_keys (md_update key vs d) =
     (if key \<in> set (md_keys d) then md_keys d else md_keys d @ [key])"
  by (induction d) (force simp: md_keys_def)+

lemma md_keys_update:
  "set (md_keys (md_update key vs d)) = insert key (set (md_keys d))"
  by (auto simp: md_keys_update_list)

lemma map_of_md_update:
  "map_of (md_update key vs d) k = (if k = key then Some vs else map_of d k)"
  by (induction d) auto

lemma md_keys_setitem:
  "set (md_keys (md_setitem d key v)) = insert key (set (md_keys d))"
  by (simp add: md_setitem_def md_keys_update)

lemma md_getitem_setitem:
  "md_getitem (md_setitem d key v) k = (if k = key then Inr v else md_getitem d k)"
  by (simp add: md_getitem_def md_setitem_def map_of_md_update)

lemma md_getitem_Inr_keys: "md_getitem d k = Inr v \<Longrightarrow> k \<in> set (md_keys d)"
  by (auto simp: md_getitem_def md_keys_def split: option.splits list.splits
      dest: map_of_SomeD intro: rev_image_eqI)

lemma md_getitem_not_key: "k \<notin> set (md_keys d) \<Longrightarrow> md_getitem d k = Inl KeyError"
  by (auto simp: md_getitem_def md_keys_def map_of_eq_None_iff[THEN iffD2]
      split: option.splits)

lemma md_getitem_no_IndexError:
  "[] \<notin> snd ` set d \<Longrightarrow> md_getitem d k = Inl KeyError \<or> (\<exists>v. md_getitem d k = Inr v)"
  by (auto simp: md_getitem_def split: option.splits list.splits dest!: map_of_SomeD
      intro: rev_image_eqI)

lemma md_update_entry:
  "(k, ws) \<in> set (md_update key vs d) \<Longrightarrow> ws = vs \<or> (k, ws) \<in> set d"
  by (induction d) (auto split: if_splits)

lemma md_update_nonempty:
  assumes "[] \<notin> snd ` set d" and "vs \<noteq> []"
  shows "[] \<notin> snd ` set (md_update key vs d)"
proof
  assume "[] \<in> snd ` set (md_update key vs d)"
  then obtain k where "(k, []) \<in> set (md_update key vs d)" by auto
  from md_update_entry[OF this] assms(2) have "(k, []) \<in> set d" by auto
  then have "[] \<in> snd ` set d" by (rule rev_image_eqI) simp
  with assms(1) show False by simp
qed

lemma map_of_tabulate:
  "k \<in> set ks \<Longrightarrow> map_of (map (\<lambda>n. (n, f n)) ks) k = Some (f k)"
  by (induction ks) auto



lemma aliases_get_not_alias: "key \<notin> set (map fst al) \<Longrightarrow> aliases_get al key = key"
  by (auto simp: aliases_get_def map_of_eq_None_iff[THEN iffD2] split: option.splits)

lemma aliased_getitem_contains:
  "aliased_getitem d key = Inr v \<Longrightarrow> aliased_contains d key"
proof (cases "key \<in> set (map fst (aliases d))")
  case True
  then show ?thesis by (simp add: aliased_contains_def aliased_keys_def)
next
  case False
  assume "aliased_getitem d key = Inr v"
  with False have "md_getitem (data d) key = Inr v"
    by (simp add: aliased_getitem_def aliases_get_not_alias)
  then show ?thesis
    by (simp add: aliased_contains_def aliased_keys_def md_getitem_Inr_keys)
qed

section \<open>Properties of the item operations\<close>

subsection \<open>What a write leaves alone\<close>

lemma setitem_frame:
  "setitem self key v = Inr self' \<Longrightarrow>
     loaded self' = loaded self \<and> stream self' = stream self \<and>
     parse_calls self' = parse_calls self \<and> opener_calls self' = opener_calls self \<and>
     cls self' = cls self \<and> opener self' = opener self \<and>
     storage_aliases self' = storage_aliases self \<and> parser_aliases self' = parser_aliases self"
  by (auto simp: setitem_def split: if_splits)

lemma setitems_frame:
  "setitems self kvs = (r, self') \<Longrightarrow>
     loaded self' = loaded self \<and> stream self' = stream self \<and>
     parse_calls self' = parse_calls self \<and> opener_calls self' = opener_calls self \<and>
     cls self' = cls self \<and> opener self' = opener self \<and>
     storage_aliases self' = storage_aliases self \<and> parser_aliases self' = parser_aliases self"
proof (induction kvs arbitrary: self)
  case Nil
  then show ?case by simp
next
  case (Cons kv kvs)
  obtain key v where kv: "kv = (key, v)" by (cases kv)
  show ?case
  proof (cases "setitem self key v")
    case (Inl e)
    with Cons.prems kv show ?thesis by simp
  next
    case (Inr s1)
    with Cons.prems kv have "setitems s1 kvs = (r, self')" by simp
    from Cons.IH[OF this] setitem_frame[OF Inr] show ?thesis by simp
  qed
qed

subsection \<open>Loading\<close>

lemma open_stream_frame:
  "open_stream self = (r, self') \<Longrightarrow>
     loaded self' = loaded self \<and> parse_calls self' = parse_calls self \<and> cls self' = cls self"
  by (auto simp: open_stream_def Let_def split: option.splits sum.splits)

lemma parse_data_success:
  assumes "parse_data self = (Inr u, self')"
  shows "parse_calls self' = Suc (parse_calls self) \<and> loaded self' = loaded self"
proof -
  obtain r1 s1 where o: "open_stream self = (r1, s1)" by (cases "open_stream self")
  obtain r st where c: "custom_parse_data (cls s1) (stream s1) = (r, st)"
    by (cases "custom_parse_data (cls s1) (stream s1)")
  from assms o c obtain parsed where
    s: "setitems (s1\<lparr>stream := st, parse_calls := Suc (parse_calls s1)\<rparr>) parsed = (Inr u, self')"
    by (auto simp: parse_data_def Let_def split: sum.splits)
  from setitems_frame[OF s] open_stream_frame[OF o] show ?thesis by simp
qed

lemma load_loaded: "loaded self \<Longrightarrow> load self = (Inr (), self)"
  by (simp add: load_def)

lemma load_success:
  assumes "\<not> loaded self" and "fst (load self) = Inr ()"
  shows "loaded (snd (load self)) \<and> parse_calls (snd (load self)) = Suc (parse_calls self)"
proof -
  obtain r s1 where p: "parse_data self = (r, s1)" by (cases "parse_data self")
  with assms obtain u where r: "r = Inr u" by (cases r) (auto simp: load_def)
  from parse_data_success[OF p[unfolded r]] assms(1) p r show ?thesis
    by (simp add: load_def)
qed

lemma getitem_state: "snd (getitem self key) = snd (load self)"
  by (auto simp: getitem_def split: prod.splits sum.splits error.splits)

lemma getitem_loaded:
  "loaded self \<Longrightarrow> getitem self key =
     (case properties_getitem self key of
        Inl KeyError \<Rightarrow> (Inr PyNone, self)
      | Inl e \<Rightarrow> (Inl e, self)
      | Inr v \<Rightarrow> (Inr v, self))"
  by (simp add: getitem_def load_loaded)

lemma reads_loaded: "loaded self \<Longrightarrow> reads self ks = self"
  by (induction ks) (simp_all add: getitem_state load_loaded)

lemma cork_item_unloaded: "\<not> loaded cork_item \<and> parse_calls cork_item = 0"
  by (simp add: cork_item_def cork_access_point_def cork_opener_def eval_defs)

lemma cork_item_load: "fst (load cork_item) = Inr ()"
  by (simp add: cork_item_def cork_access_point_def cork_opener_def eval_defs)

subsection \<open>Writes of values that are not lists\<close>

lemma setitem_scalar:
  assumes "\<not> isinstance_list v"
  shows "setitem self key v =
     Inr (if key \<in> set (map fst (storage_aliases self)) \<or>
             (key \<notin> set (map fst (parser_aliases self)) \<and>
              key \<in> set (md_keys (raw_storage_properties self)))
          then self\<lparr>raw_storage_properties :=
                       md_setitem (raw_storage_properties self)
                         (aliases_get (storage_aliases self) key) v,
                     content_modified := True\<rparr>
          else self\<lparr>raw_parser_properties :=
                       md_setitem (raw_parser_properties self)
                         (aliases_get (parser_aliases self) key) v,
                     parser_modified := True\<rparr>)"
  using assms
  by (auto simp: setitem_def is_storage_def aliased_contains_def aliased_keys_def
      storage_properties_def parser_properties_def aliased_setitem_def)

lemma setitem_scalar_ex:
  "\<not> isinstance_list v \<Longrightarrow> \<exists>self'. setitem self key v = Inr self'"
  by (simp add: setitem_scalar)

lemma properties_getitem_plain:
  assumes "key \<notin> set (map fst (storage_aliases self))"
    and "key \<notin> set (map fst (parser_aliases self))"
  shows "properties_getitem self key =
     (if key \<in> set (md_keys (raw_storage_properties self))
      then md_getitem (raw_storage_properties self) key
      else if key \<in> set (md_keys (raw_parser_properties self))
      then md_getitem (raw_parser_properties self) key
      else Inl KeyError)"
  using assms
  by (simp add: properties_getitem_def aliased_contains_def aliased_keys_def
      aliased_getitem_def storage_properties_def parser_properties_def aliases_get_not_alias)

lemma setitem_plain_cases:
  assumes "key \<notin> set (map fst (storage_aliases self))"
    and "key \<notin> set (map fst (parser_aliases self))"
    and "setitem self key v = Inr self'"
  obtains
    (storage) "key \<in> set (md_keys (raw_storage_properties self))"
      "self' = self\<lparr>raw_storage_properties := md_setitem (raw_storage_properties self) key v,
                     content_modified := True\<rparr>"
  | (parser) "key \<notin> set (md_keys (raw_storage_properties self))"
      "self' = self\<lparr>raw_parser_properties := md_setitem (raw_parser_properties self) key v,
                     parser_modified := True\<rparr>"
proof -
  have nl: "\<not> isinstance_list v" using assms(3) by (auto simp: setitem_def split: if_splits)
  show ?thesis
  proof (cases "key \<in> set (md_keys (raw_storage_properties self))")
    case True
    with assms setitem_scalar[OF nl, of self key] storage show ?thesis
      by (simp add: aliases_get_not_alias)
  next
    case False
    with assms setitem_scalar[OF nl, of self key] parser show ?thesis
      by (simp add: aliases_get_not_alias)
  qed
qed

lemma write_then_lookup:
  assumes "key \<notin> set (map fst (storage_aliases self))"
    and "key \<notin> set (map fst (parser_aliases self))"
    and "setitem self key v = Inr self'"
  shows "properties_getitem self' key = Inr v"
  using assms(1,2)
  by (cases rule: setitem_plain_cases[OF assms])
     (simp_all add: properties_getitem_plain md_keys_setitem md_getitem_setitem)




subsection \<open>Reads of a loaded item\<close>

lemma properties_getitem_no_IndexError:
  assumes "[] \<notin> snd ` set (raw_storage_properties self)"
    and "[] \<notin> snd ` set (raw_parser_properties self)"
  shows "properties_getitem self key = Inl KeyError \<or> (\<exists>v. properties_getitem self key = Inr v)"
  using md_getitem_no_IndexError[OF assms(1), of "aliases_get (storage_aliases self) key"]
    md_getitem_no_IndexError[OF assms(2), of "aliases_get (parser_aliases self) key"]
  by (auto simp: properties_getitem_def aliased_getitem_def storage_properties_def
      parser_properties_def)

lemma getitem_loaded_total:
  assumes "loaded self"
    and "[] \<notin> snd ` set (raw_storage_properties self)"
    and "[] \<notin> snd ` set (raw_parser_properties self)"
  shows "\<exists>v. getitem self key = (Inr v, self)"
  using properties_getitem_no_IndexError[OF assms(2,3), of key] assms(1)
  by (auto simp: getitem_loaded)

lemma getitems_loaded:
  assumes "loaded self"
    and "[] \<notin> snd ` set (raw_storage_properties self)"
    and "[] \<notin> snd ` set (raw_parser_properties self)"
  shows "getitems self names =
           (Inr (map (\<lambda>n. (n, projr (fst (getitem self n)))) names), self)"
proof (induction names)
  case Nil
  show ?case by simp
next
  case (Cons n names)
  obtain v where "getitem self n = (Inr v, self)"
    using getitem_loaded_total[OF assms, of n] by blast
  with Cons show ?case by simp
qed

subsection \<open>Construction\<close>

lemma Item_init_total: "\<exists>self. Item_init c ap opn sp = Inr self \<and> cls self = c \<and> opener self = opn
   \<and> stream self = None \<and> \<not> loaded self \<and> parse_calls self = 0 \<and> opener_calls self = 0"
  by (simp add: Item_init_def setitem_scalar)

lemma find_None_format:
  "find (\<lambda>subclass. format subclass = Some name) subclasses = None \<longleftrightarrow>
     (\<forall>c \<in> set subclasses. format c \<noteq> Some name)"
  by (auto simp: find_None_iff)





section \<open>The claims\<close>

text \<open>
  C1, as the code has it. \<open>__getitem__\<close> sets \<open>_loaded\<close> only after \<open>_parse_data\<close> has
  returned. So: for an item that is not loaded and whose load, triggered by the first
  read, completes without raising, the parse hook runs exactly once over any sequence of one
  or more reads: the first read runs it and loads the item, and the item is still loaded,
  with the hook run once, after all the reads.
\<close>

theorem exactly_once_load:
  assumes "\<not> loaded self" and "fst (load self) = Inr ()"
  shows "parse_calls (snd (getitem self key)) = Suc (parse_calls self) \<and>
         loaded (snd (getitem self key)) \<and>
         parse_calls (reads self (key # ks)) = Suc (parse_calls self) \<and>
         loaded (reads self (key # ks))"
  using load_success[OF assms] by (simp add: getitem_state reads_loaded)

theorem exactly_once_load_witness:
  "\<not> loaded cork_item \<and> fst (load cork_item) = Inr () \<and> parse_calls cork_item = 0 \<and>
   parse_calls (reads cork_item [''artist'', ''_content'', ''artist'']) = 1 \<and>
   loaded (reads cork_item [''artist'', ''_content'', ''artist''])"
proof -
  have h1: "\<not> loaded cork_item" using cork_item_unloaded by simp
  have h2: "fst (load cork_item) = Inr ()" by (rule cork_item_load)
  show ?thesis
    using exactly_once_load[OF h1 h2, of "''artist''" "[''_content'', ''artist'']"]
      cork_item_unloaded h2
    by simp
qed

text \<open>
  C1 as stated fails: an \<open>AtomItem\<close> built with no opener is constructed unloaded, its
  parse hook raises on \<open>self._stream.read()\<close>, the item stays unloaded, and the second read
  runs the hook again.
\<close>

theorem exactly_once_load_counterexample:
  "\<not> loaded unopened_item \<and> parse_calls unopened_item = 0 \<and>
   fst (getitem unopened_item ''artist'') = Inl AttributeError \<and>
   parse_calls (reads unopened_item [''artist'', ''artist'']) = 2 \<and>
   \<not> loaded (reads unopened_item [''artist'', ''artist''])"
  by (simp add: unopened_item_def cork_access_point_def eval_defs)

text \<open>
  C8: writes and key enumeration never load. Whatever sequence of \<open>__setitem__\<close> and
  \<open>keys\<close> calls runs on an item, \<open>_loaded\<close> is what it was (so a never-read item stays
  unloaded), the parse hook and the opener have not been called, and the stream is
  untouched.
\<close>

theorem writes_and_keys_never_load:
  "loaded (apply_ops self ops) = loaded self \<and>
   parse_calls (apply_ops self ops) = parse_calls self \<and>
   opener_calls (apply_ops self ops) = opener_calls self \<and>
   stream (apply_ops self ops) = stream self"
proof (induction ops arbitrary: self)
  case Nil
  show ?case by simp
next
  case (Cons op ops)
  show ?case
  proof (cases op)
    case (Write key v)
    show ?thesis
    proof (cases "setitem self key v")
      case (Inl e)
      with Write Cons.IH[of self] show ?thesis by simp
    next
      case (Inr s1)
      with Write Cons.IH[of s1] setitem_frame[OF Inr] show ?thesis by simp
    qed
  next
    case Keys
    with Cons.IH[of self] show ?thesis by simp
  qed
qed

text \<open>
  C10: storage wins on combined reads. For a loaded item and a key that holds a value in
  the storage view and in the parser view (each resolving the key through its own alias
  table), \<open>__getitem__\<close> returns the value of the storage view and leaves the item as it
  is.
\<close>

theorem storage_wins:
  assumes "loaded self"
    and "aliased_getitem (storage_properties self) key = Inr v"
    and "aliased_getitem (parser_properties self) key = Inr w"
  shows "getitem self key = (Inr v, self)"
proof -
  have "aliased_contains (storage_properties self) key"
    using assms(2) by (rule aliased_getitem_contains)
  then have "properties_getitem self key = Inr v"
    using assms(2) by (simp add: properties_getitem_def)
  with assms(1) show ?thesis by (simp add: getitem_loaded)
qed

theorem storage_wins_witness:
  "loaded both_item \<and>
   aliased_getitem (storage_properties both_item) ''title'' = Inr (PyStr ''stored'') \<and>
   aliased_getitem (parser_properties both_item) ''title'' = Inr (PyStr ''parsed'') \<and>
   getitem both_item ''title'' = (Inr (PyStr ''stored''), both_item)"
proof -
  have h1: "loaded both_item"
    by (simp add: both_item_def alias_access_point_def eval_defs)
  have h2: "aliased_getitem (storage_properties both_item) ''title'' = Inr (PyStr ''stored'')"
    by (simp add: both_item_def alias_access_point_def eval_defs)
  have h3: "aliased_getitem (parser_properties both_item) ''title'' = Inr (PyStr ''parsed'')"
    by (simp add: both_item_def alias_access_point_def eval_defs)
  show ?thesis using storage_wins[OF h1 h2 h3] h1 h2 h3 by simp
qed

text \<open>
  C2: a write is routed to the storage namespace for a declared storage alias, else to the
  parser namespace for a declared parser alias, else to the storage namespace for a key it
  holds, else to the parser namespace, and sets the matching dirty flag. For a value that
  is not a list the code does so (lemma \<open>setitem_scalar\<close>). For a list it calls
  \<open>setlist\<close> on the view, which \<open>AliasedMultiDict\<close> does not define: whatever the item
  and the key, the write raises, stores nothing and sets no flag.
\<close>

theorem setitem_list_raises: "setitem self key (PyList vs) = Inl AttributeError"
  by (simp add: setitem_def)

text \<open>
  C3, as the code has it. For an \<open>AtomItem\<close> that is already loaded, whose alias tables do
  not declare \<open>_content\<close> and none of whose keys holds an empty list of values,
  \<open>write(s)\<close> succeeds and \<open>serialize()\<close> then returns \<open>s\<close>, for every string \<open>s\<close>,
  the empty one included.
\<close>

theorem binary_round_trip:
  assumes "loaded self" and "cls self = AtomItem"
    and "''_content'' \<notin> set (map fst (storage_aliases self))"
    and "''_content'' \<notin> set (map fst (parser_aliases self))"
    and "[] \<notin> snd ` set (raw_storage_properties self)"
    and "[] \<notin> snd ` set (raw_parser_properties self)"
  shows "\<exists>self'. AtomItem_write self (PyStr s) = Inr self' \<and>
           serialize self' = (Inr (PyStr s), self')"
proof -
  obtain s1 where w: "setitem self ''_content'' (PyStr s) = Inr s1"
    using setitem_scalar_ex[of "PyStr s" self "''_content''"] by auto
  have fr: "loaded s1" "cls s1 = AtomItem"
    using setitem_frame[OF w] assms(1,2) by simp_all
  have ne: "[] \<notin> snd ` set (raw_storage_properties s1)"
    "[] \<notin> snd ` set (raw_parser_properties s1)"
    using assms(5,6)
    by (cases rule: setitem_plain_cases[OF assms(3,4) w];
        simp add: md_setitem_def md_update_nonempty)+
  have k: "''_content'' \<in> set (raw_properties_keys s1)"
    by (cases rule: setitem_plain_cases[OF assms(3,4) w])
       (simp_all add: raw_properties_keys_def combined_keys_def md_keys_setitem)
  have "properties_getitem s1 ''_content'' = Inr (PyStr s)"
    using write_then_lookup[OF assms(3,4) w] .
  then have r: "getitem s1 ''_content'' = (Inr (PyStr s), s1)"
    using fr(1) by (simp add: getitem_loaded)
  have "serialize s1 = (Inr (PyStr s), s1)"
    using k r fr(2)
    by (simp add: serialize_def getitems_loaded[OF fr(1) ne] AtomItem_def map_of_tabulate)
  with w show ?thesis by (simp add: AtomItem_write_def)
qed

theorem binary_round_trip_witness:
  "loaded fresh_item \<and> cls fresh_item = AtomItem \<and>
   fst (serialize (projr (AtomItem_write fresh_item (PyStr ''hello'')))) = Inr (PyStr ''hello'') \<and>
   fst (serialize (projr (AtomItem_write fresh_item (PyStr [])))) = Inr (PyStr [])"
proof -
  have h1: "loaded fresh_item" by (simp add: ex_defs eval_defs)
  have h2: "cls fresh_item = AtomItem" by (simp add: ex_defs eval_defs)
  have h3: "''_content'' \<notin> set (map fst (storage_aliases fresh_item))"
    by (simp add: ex_defs eval_defs)
  have h4: "''_content'' \<notin> set (map fst (parser_aliases fresh_item))"
    by (simp add: ex_defs eval_defs)
  have h5: "[] \<notin> snd ` set (raw_storage_properties fresh_item)"
    by (simp add: ex_defs eval_defs)
  have h6: "[] \<notin> snd ` set (raw_parser_properties fresh_item)"
    by (simp add: ex_defs eval_defs)
  show ?thesis
    using binary_round_trip[OF h1 h2 h3 h4 h5 h6, of "''hello''"]
      binary_round_trip[OF h1 h2 h3 h4 h5 h6, of "[]"] h1 h2
    by auto
qed

text \<open>
  C3 as stated fails on an item that is not loaded yet: \<open>serialize\<close> reads the
  properties, the first read loads the item, and the parsed \<open>_content\<close> replaces the one
  just written. The doctests' item, written \<open>new\<close>, serializes to the text of its stream.
\<close>

theorem binary_round_trip_counterexample:
  "\<not> loaded cork_item \<and> cls cork_item = AtomItem \<and>
   \<not> isl (AtomItem_write cork_item (PyStr ''new'')) \<and>
   fst (serialize (projr (AtomItem_write cork_item (PyStr ''new'')))) = Inr (PyStr ''toto'')"
  by (simp add: ex_defs eval_defs)

text \<open>
  C4, as the code has it. When the load that a read may trigger completes without raising,
  and the key, resolved through either alias table, is a key of neither MultiDict once the
  item is loaded, \<open>__getitem__\<close> returns \<open>None\<close> and does not raise.
\<close>

theorem absent_key_reads_None:
  assumes "fst (load self) = Inr ()"
    and "aliases_get (storage_aliases (snd (load self))) key
           \<notin> set (md_keys (raw_storage_properties (snd (load self))))"
    and "aliases_get (parser_aliases (snd (load self))) key
           \<notin> set (md_keys (raw_parser_properties (snd (load self))))"
  shows "getitem self key = (Inr PyNone, snd (load self))"
proof -
  obtain s1 where l: "load self = (Inr (), s1)" using assms(1) by (cases "load self") auto
  have "aliased_getitem (storage_properties s1) key = Inl KeyError"
    using assms(2) l by (simp add: aliased_getitem_def storage_properties_def md_getitem_not_key)
  moreover have "aliased_getitem (parser_properties s1) key = Inl KeyError"
    using assms(3) l by (simp add: aliased_getitem_def parser_properties_def md_getitem_not_key)
  ultimately have "properties_getitem s1 key = Inl KeyError"
    by (simp add: properties_getitem_def)
  with l show ?thesis by (simp add: getitem_def)
qed

theorem absent_key_reads_None_witness:
  "fst (load cork_item) = Inr () \<and>
   ''title'' \<notin> set (keys (snd (load cork_item))) \<and>
   fst (getitem cork_item ''title'') = Inr PyNone"
proof -
  have h1: "fst (load cork_item) = Inr ()" by (rule cork_item_load)
  have h2: "aliases_get (storage_aliases (snd (load cork_item))) ''title''
           \<notin> set (md_keys (raw_storage_properties (snd (load cork_item))))"
    by (simp add: ex_defs eval_defs)
  have h3: "aliases_get (parser_aliases (snd (load cork_item))) ''title''
           \<notin> set (md_keys (raw_parser_properties (snd (load cork_item))))"
    by (simp add: ex_defs eval_defs)
  have h4: "''title'' \<notin> set (keys (snd (load cork_item)))"
    by (simp add: ex_defs eval_defs)
  show ?thesis
    using absent_key_reads_None[OF h1 h2 h3] h1 h4 by simp
qed

text \<open>
  C4 as stated fails twice. A read raises what the load raises: on an \<open>AtomItem\<close> with no
  opener, reading a key that no write and no parse ever set raises \<open>AttributeError\<close>. And a
  key given with the storage properties at construction, set by no write and produced by no
  parse, reads as its value.
\<close>

theorem absent_key_counterexample:
  "\<not> loaded unopened_item \<and> ''title'' \<notin> set (keys unopened_item) \<and>
   fst (getitem unopened_item ''title'') = Inl AttributeError \<and>
   fst (getitem cork_item ''artist'') = Inr (PyStr ''muse'')"
  by (simp add: ex_defs eval_defs)

text \<open>
  C5, as the code has it. \<open>__contains__\<close> is \<open>key in self.keys()\<close>: a key is contained if
  and only if it is a declared alias name, or its resolved canonical key (the key itself
  then) is a key of the backing MultiDict.
\<close>

theorem aliased_contains_iff:
  "aliased_contains d key \<longleftrightarrow>
     key \<in> set (map fst (aliases d)) \<or> aliases_get (aliases d) key \<in> set (md_keys (data d))"
proof (cases "key \<in> set (map fst (aliases d))")
  case True
  then show ?thesis by (simp add: aliased_contains_def aliased_keys_def)
next
  case False
  then show ?thesis
    by (simp add: aliased_contains_def aliased_keys_def aliases_get_not_alias)
qed

text \<open>
  C5 as stated fails: the declared alias \<open>x\<close> is contained although its canonical key
  \<open>y\<close> holds no value, and reading it raises \<open>KeyError\<close>.
\<close>

theorem aliased_contains_counterexample:
  "aliased_contains declared_only ''x'' \<and>
   aliases_get (aliases declared_only) ''x'' = ''y'' \<and>
   ''y'' \<notin> set (md_keys (data declared_only)) \<and>
   aliased_getitem declared_only ''x'' = Inl KeyError"
  by (simp add: declared_only_def eval_defs)

text \<open>
  C6: \<open>get_item_parser\<close> raises if and only if the access point's \<open>parser_name\<close> is not
  \<open>None\<close> and no subclass has it as its \<open>format\<close>; what it raises is
  \<open>ParserNotAvailable\<close>. When \<open>parser_name\<close> is \<open>None\<close> it returns an item of the base
  class \<open>Item\<close> (no format, the hooks of no parser), with no opener and no stream, not
  loaded, on which nothing has been parsed or opened.
\<close>

theorem get_item_parser_resolution:
  "((\<exists>e. get_item_parser subclasses ap opn sp = Inl e) \<longleftrightarrow>
      (\<exists>name. parser_name ap = Some name \<and> (\<forall>c \<in> set subclasses. format c \<noteq> Some name))) \<and>
   (\<forall>e. get_item_parser subclasses ap opn sp = Inl e \<longrightarrow>
      (\<exists>name. parser_name ap = Some name \<and>
         e = ParserNotAvailable (''Unknown parser: '' @ name))) \<and>
   (parser_name ap = None \<longrightarrow>
      (\<exists>self. get_item_parser subclasses ap opn sp = Inr self \<and> cls self = Item \<and>
         format (cls self) = None \<and> opener self = None \<and> stream self = None \<and>
         \<not> loaded self \<and> parse_calls self = 0 \<and> opener_calls self = 0))"
proof (cases "parser_name ap")
  case None
  obtain self where "Item_init Item ap None sp = Inr self" "cls self = Item" "opener self = None"
    "stream self = None" "\<not> loaded self" "parse_calls self = 0" "opener_calls self = 0"
    using Item_init_total[of Item ap None sp] by blast
  with None show ?thesis by (simp add: get_item_parser_def Item_def)
next
  case (Some name)
  show ?thesis
  proof (cases "find (\<lambda>subclass. format subclass = Some name) subclasses")
    case None
    with Some show ?thesis
      using find_None_format[of name subclasses] by (simp add: get_item_parser_def)
  next
    case (Some c)
    obtain self where "Item_init c ap opn sp = Inr self"
      using Item_init_total[of c ap opn sp] by blast
    with Some \<open>parser_name ap = Some name\<close> show ?thesis
      using find_None_format[of name subclasses] by (auto simp: get_item_parser_def)
  qed
qed

theorem get_item_parser_resolution_witness:
  "parser_name missing_access_point = Some ''I do not exist'' \<and>
   format AtomItem \<noteq> Some ''I do not exist'' \<and>
   get_item_parser [AtomItem] missing_access_point cork_opener [] =
     Inl (ParserNotAvailable ''Unknown parser: I do not exist'') \<and>
   parser_name alias_access_point = None \<and>
   cls (projr (get_item_parser [AtomItem] alias_access_point cork_opener [])) = Item \<and>
   opener (projr (get_item_parser [AtomItem] alias_access_point cork_opener [])) = None"
proof -
  have h1: "parser_name missing_access_point = Some ''I do not exist''"
    by (simp add: ex_defs)
  have h2: "format AtomItem \<noteq> Some ''I do not exist''" by (simp add: AtomItem_def)
  have h3: "parser_name alias_access_point = None" by (simp add: ex_defs)
  show ?thesis
    using get_item_parser_resolution[of "[AtomItem]" missing_access_point cork_opener "[]"]
      get_item_parser_resolution[of "[AtomItem]" alias_access_point cork_opener "[]"]
      h1 h2 h3
    by auto
qed



text \<open>
  C9: when neither the storage alias table nor the supplied storage properties have
  \<open>_content\<close>, the constructor's own \<open>self['_content'] = ''\<close> goes to the parser
  namespace: \<open>parser_modified\<close> is already true on the item the constructor returns, before
  any write of the caller, while the item is not loaded and \<open>content_modified\<close> is false.
\<close>

theorem init_sets_parser_modified:
  assumes "''_content'' \<notin> set (map fst (ap_storage_aliases ap))"
    and "''_content'' \<notin> set (map fst storage_props)"
  shows "\<exists>self. Item_init c ap opn storage_props = Inr self \<and>
           parser_modified self \<and> \<not> content_modified self \<and> \<not> loaded self \<and>
           parse_calls self = 0"
  using assms by (simp add: Item_init_def setitem_scalar md_keys_MultiDict)

theorem init_sets_parser_modified_witness:
  "''_content'' \<notin> set (map fst (ap_storage_aliases cork_access_point)) \<and>
   ''_content'' \<notin> set (map fst [(''artist'', PyStr ''muse'')]) \<and>
   parser_modified cork_item \<and> \<not> content_modified cork_item \<and> \<not> loaded cork_item"
proof -
  have h1: "''_content'' \<notin> set (map fst (ap_storage_aliases cork_access_point))"
    by (simp add: cork_access_point_def)
  have h2: "''_content'' \<notin> set (map fst [(''artist'', PyStr ''muse'')])" by simp
  show ?thesis
    using init_sets_parser_modified[OF h1 h2, of AtomItem cork_opener] h1 h2
    by (auto simp: cork_item_def)
qed

end
